theory Spec2Isabelle
  imports Main
begin

section \<open>Python values read by the program\<close>

text \<open>
  The program handles the values that \<^verbatim>\<open>response.json()\<close> yields: \<^verbatim>\<open>None\<close>, booleans,
  integers, strings, lists and dictionaries. A dictionary is an association list read
  with \<open>map_of\<close>. Python's \<^verbatim>\<open>None\<close> and JSON's \<^verbatim>\<open>null\<close> are the same value, \<open>JNull\<close>.
  Numbers with a fraction or an exponent (Python floats) are outside the model.
\<close>

datatype json =
    JNull
  | JBool bool
  | JInt int
  | JStr string
  | JArr "json list"
  | JObj "(string \<times> json) list"

text \<open>The exceptions that no handler of the program catches.\<close>

datatype exn =
    ValueError | OverflowError | OSError | TypeError | AttributeError | KeyError
  | RecursionError | MarkupError

text \<open>\<^verbatim>\<open>bool(v)\<close>, as \<^verbatim>\<open>if v\<close>, \<^verbatim>\<open>if not v\<close> and \<^verbatim>\<open>while v\<close> evaluate it.\<close>

fun truthy :: "json \<Rightarrow> bool" where
  "truthy JNull = False"
| "truthy (JBool b) = b"
| "truthy (JInt i) = (i \<noteq> 0)"
| "truthy (JStr s) = (s \<noteq> [])"
| "truthy (JArr xs) = (xs \<noteq> [])"
| "truthy (JObj kvs) = (kvs \<noteq> [])"

text \<open>\<^verbatim>\<open>d.get(key, default)\<close>: only a dictionary has the method.\<close>

fun py_get :: "json \<Rightarrow> string \<Rightarrow> json \<Rightarrow> exn + json" where
  "py_get (JObj kvs) k dflt = (case map_of kvs k of None \<Rightarrow> Inr dflt | Some v \<Rightarrow> Inr v)"
| "py_get _ k dflt = Inl AttributeError"

text \<open>\<^verbatim>\<open>d[key]\<close> with a string key.\<close>

fun py_getitem :: "json \<Rightarrow> string \<Rightarrow> exn + json" where
  "py_getitem (JObj kvs) k = (case map_of kvs k of None \<Rightarrow> Inl KeyError | Some v \<Rightarrow> Inr v)"
| "py_getitem _ k = Inl TypeError"

text \<open>
  What \<^verbatim>\<open>list.extend(v)\<close> appends: the elements of a list, the characters of a string,
  the keys of a dictionary; anything else is not iterable.
\<close>

fun py_iter :: "json \<Rightarrow> exn + json list" where
  "py_iter (JArr xs) = Inr xs"
| "py_iter (JStr s) = Inr (map (\<lambda>c. JStr [c]) s)"
| "py_iter (JObj kvs) = Inr (map (\<lambda>kv. JStr (fst kv)) kvs)"
| "py_iter _ = Inl TypeError"

text \<open>
  \<^verbatim>\<open>a == b\<close> on these values: a boolean equals the integer 0 or 1 it stands for, lists
  are equal elementwise, dictionaries when they have the same keys with equal values;
  \<^verbatim>\<open>a != b\<close> is its negation.
\<close>

lemma size_json_elem: "x \<in> set xs \<Longrightarrow> size x < Suc (size_list size xs)"
  by (induction xs) auto

lemma size_json_nth: "i < length xs \<Longrightarrow> size (xs ! i) < Suc (size_list size xs)"
  by (simp add: size_json_elem)

lemma size_json_pair:
  "(k, v) \<in> set kvs \<Longrightarrow> size v < Suc (size_list (size_prod (\<lambda>_. 0) size) kvs)"
  by (induction kvs) auto

lemma size_json_map_of:
  "map_of kvs k = Some v \<Longrightarrow> size v < Suc (size_list (size_prod (\<lambda>_. 0) size) kvs)"
  by (auto dest!: map_of_SomeD size_json_pair)

function (sequential) py_eq :: "json \<Rightarrow> json \<Rightarrow> bool" where
  "py_eq JNull JNull = True"
| "py_eq (JBool a) (JBool b) = (a = b)"
| "py_eq (JBool a) (JInt b) = ((if a then 1 else 0) = b)"
| "py_eq (JInt a) (JBool b) = (a = (if b then 1 else 0))"
| "py_eq (JInt a) (JInt b) = (a = b)"
| "py_eq (JStr a) (JStr b) = (a = b)"
| "py_eq (JArr xs) (JArr ys) =
     (length xs = length ys \<and> list_all (\<lambda>i. py_eq (xs ! i) (ys ! i)) [0..<length xs])"
| "py_eq (JObj a) (JObj b) =
     (list_all (\<lambda>k. map_of a k \<noteq> None) (map fst b) \<and>
      list_all (\<lambda>k. case map_of a k of
                       None \<Rightarrow> False
                     | Some v \<Rightarrow> (case map_of b k of None \<Rightarrow> False | Some v' \<Rightarrow> py_eq v v'))
        (map fst a))"
| "py_eq _ _ = False"
  by pat_completeness auto
termination
  by (relation "measure (\<lambda>(a, b). size a)") (auto simp: size_json_map_of size_json_nth)

section \<open>Converting the Retry-After header\<close>

definition is_digit :: "char \<Rightarrow> bool" where
  "is_digit c = (48 \<le> (of_char c :: nat) \<and> (of_char c :: nat) \<le> 57)"

definition digit_val :: "char \<Rightarrow> int" where
  "digit_val c = int (of_char c) - 48"

text \<open>
  The characters that \<^verbatim>\<open>int\<close> skips at both ends of a string of Latin-1 characters (the
  header values of the HTTP library): tab to carriage return, space, U+0085 and U+00A0.
\<close>

definition py_space :: "char \<Rightarrow> bool" where
  "py_space c =
     ((9 \<le> (of_char c :: nat) \<and> (of_char c :: nat) \<le> 13) \<or> (of_char c :: nat) = 32
      \<or> (of_char c :: nat) = 133 \<or> (of_char c :: nat) = 160)"

text \<open>
  \<^verbatim>\<open>int(s)\<close>: surrounding whitespace is dropped, one sign is allowed, then decimal digits
  with single underscores between digits. More than 4300 digits are refused.
\<close>

fun int_digits :: "bool \<Rightarrow> int \<Rightarrow> string \<Rightarrow> int option" where
  "int_digits prev acc [] = (if prev then Some acc else None)"
| "int_digits prev acc (c # cs) =
     (if is_digit c then int_digits True (10 * acc + digit_val c) cs
      else if c = CHR ''_'' \<and> prev then int_digits False acc cs
      else None)"

definition py_strip :: "string \<Rightarrow> string" where
  "py_strip s = rev (dropWhile py_space (rev (dropWhile py_space s)))"

definition py_int_str :: "string \<Rightarrow> exn + int" where
  "py_int_str s =
     (let t = py_strip s;
          sgn = (case t of c # r \<Rightarrow> if c = CHR ''-'' then (-1 :: int) else 1 | [] \<Rightarrow> 1);
          ds = (case t of c # r \<Rightarrow> if c = CHR ''-'' \<or> c = CHR ''+'' then r else t | [] \<Rightarrow> t)
      in case int_digits False 0 ds of
           None \<Rightarrow> Inl ValueError
         | Some n \<Rightarrow> if 4300 < length (filter is_digit ds) then Inl ValueError else Inr (sgn * n))"

section \<open>The libraries and the console as an explicit environment and world\<close>

record request =
  rq_method :: string
  rq_url :: string
  rq_authorization :: string
  rq_params :: "(string \<times> int) list option"
  rq_json :: "json option"

text \<open>
  A response as the client reads it: the status code, the Retry-After header when the
  response has one, and the body. The body is empty (\<^verbatim>\<open>response.content\<close> is falsy), or
  it is not JSON (\<^verbatim>\<open>response.json()\<close> raises \<^verbatim>\<open>JSONDecodeError\<close>, a \<^verbatim>\<open>RequestException\<close>
  of the HTTP library), or it decodes to a value. \<open>error_text\<close> is the \<^verbatim>\<open>str()\<close> of the
  exception that \<^verbatim>\<open>raise_for_status()\<close> or \<^verbatim>\<open>json()\<close> raises for this response, when one
  of them does.
\<close>

datatype body = EmptyBody | BadJson | JsonBody json

record response =
  status_code :: int
  retry_after_header :: "string option"
  content :: body
  error_text :: string

text \<open>
  What \<^verbatim>\<open>requests.request\<close> does for a call: it raises a \<^verbatim>\<open>RequestException\<close> (given by its
  \<^verbatim>\<open>str()\<close>) or returns a response.
\<close>

datatype outcome = Raises string | Responds response

text \<open>
  The remote side answers a call given every request sent so far in order, the current
  one last.
\<close>

type_synonym server = "request list \<Rightarrow> outcome"

text \<open>
  What lies outside the program: the HTTP library with the remote side behind it, the
  markup parser of the console library (\<^verbatim>\<open>console.print(text)\<close> raises \<^verbatim>\<open>MarkupError\<close> on a
  text it refuses), and the operating system call behind \<^verbatim>\<open>time.sleep\<close> (it raises
  \<^verbatim>\<open>OSError\<close> on a duration the system refuses).
\<close>

record env =
  http :: server
  rich_accepts :: "string \<Rightarrow> bool"
  os_sleeps :: "int \<Rightarrow> bool"

text \<open>
  \<^verbatim>\<open>time.sleep(n)\<close> for an integer: a value whose nanoseconds do not fit 64 signed bits
  raises OverflowError, a negative one ValueError, and the system may refuse the rest.
\<close>

definition py_sleep :: "env \<Rightarrow> int \<Rightarrow> exn + unit" where
  "py_sleep env n =
     (if n * 1000000000 < - (2 ^ 63) \<or> 2 ^ 63 - 1 < n * 1000000000 then Inl OverflowError
      else if n < 0 then Inl ValueError
      else if os_sleeps env n then Inr ()
      else Inl OSError)"

text \<open>
  The console output. The two messages that embed the text of an exception carry it; the
  other messages are fixed texts (and a number) that the console always renders.
\<close>

datatype msg =
    MsgRateLimited int
  | MsgRequestError string
  | MsgFetchingAll
  | MsgFound nat
  | MsgFetchingProfile
  | MsgInvalidRegex string

record world =
  sent :: "request list"
  slept :: "int list"
  console :: "msg list"

definition emit :: "msg \<Rightarrow> world \<Rightarrow> world" where
  "emit m w = w\<lparr>console := console w @ [m]\<rparr>"

text \<open>The f-strings handed to \<^verbatim>\<open>console.print\<close> with the text of an exception inside.\<close>

definition request_error_markup :: "string \<Rightarrow> string" where
  "request_error_markup e = ''[bold red]An error occurred with the request: '' @ e @ ''[/bold red]''"

definition invalid_regex_markup :: "string \<Rightarrow> string" where
  "invalid_regex_markup e = ''[bold red]Invalid regex for --name: '' @ e @ ''[/bold red]''"

definition console_print :: "env \<Rightarrow> string \<Rightarrow> msg \<Rightarrow> world \<Rightarrow> exn + world" where
  "console_print env markup m w =
     (if rich_accepts env markup then Inr (emit m w) else Inl MarkupError)"

section \<open>The API client\<close>

definition API_BASE_URL :: string where
  "API_BASE_URL = ''https://api.spotify.com/v1/''"

record client =
  access_token :: string
  user_data :: json

text \<open>\<^verbatim>\<open>SpotifyClient.__init__\<close>: an empty or missing token is refused.\<close>

definition SpotifyClient_init :: "string option \<Rightarrow> exn + client" where
  "SpotifyClient_init tok =
     (case tok of
        None \<Rightarrow> Inl ValueError
      | Some t \<Rightarrow> if t = [] then Inl ValueError
                  else Inr \<lparr>access_token = t, user_data = JNull\<rparr>)"

definition startswith :: "string \<Rightarrow> string \<Rightarrow> bool" where
  "startswith s p = (take (length p) s = p)"

definition request_url :: "string \<Rightarrow> string" where
  "request_url endpoint = (if startswith endpoint ''http'' then endpoint else API_BASE_URL @ endpoint)"

definition mk_request :: "client \<Rightarrow> string \<Rightarrow> string \<Rightarrow> (string \<times> int) list option \<Rightarrow> json option \<Rightarrow> request" where
  "mk_request c meth endpoint params body =
     \<lparr>rq_method = meth, rq_url = request_url endpoint,
      rq_authorization = ''Bearer '' @ access_token c,
      rq_params = params, rq_json = body\<rparr>"

text \<open>\<^verbatim>\<open>int(response.headers.get("Retry-After", 5))\<close>\<close>

definition retry_after :: "response \<Rightarrow> exn + int" where
  "retry_after r = (case retry_after_header r of None \<Rightarrow> Inr 5 | Some h \<Rightarrow> py_int_str h)"

text \<open>
  \<^verbatim>\<open>SpotifyClient._request\<close>. Every \<^verbatim>\<open>RequestException\<close> raised inside the \<^verbatim>\<open>try\<close> (by the
  call itself, by \<^verbatim>\<open>raise_for_status\<close> on a status from 400 to 599, by \<^verbatim>\<open>response.json()\<close>)
  is caught: the handler prints its text and returns \<^verbatim>\<open>None\<close>, unless the print itself
  raises. An exception of \<^verbatim>\<open>int\<close> or \<^verbatim>\<open>time.sleep\<close> is not a \<^verbatim>\<open>RequestException\<close> and leaves
  the function.
\<close>

definition report_request_error :: "env \<Rightarrow> string \<Rightarrow> world \<Rightarrow> (exn + json) \<times> world" where
  "report_request_error env e w =
     (case console_print env (request_error_markup e) (MsgRequestError e) w of
        Inl x \<Rightarrow> (Inl x, w)
      | Inr w' \<Rightarrow> (Inr JNull, w'))"

fun SpotifyClient_request ::
  "env \<Rightarrow> client \<Rightarrow> string \<Rightarrow> string \<Rightarrow> (string \<times> int) list option \<Rightarrow> json option
     \<Rightarrow> nat \<Rightarrow> world \<Rightarrow> (exn + json) \<times> world" where
  "SpotifyClient_request env c meth endpoint params body retries w =
     (let w1 = w\<lparr>sent := sent w @ [mk_request c meth endpoint params body]\<rparr> in
      case http env (sent w1) of
        Raises e \<Rightarrow> report_request_error env e w1
      | Responds r \<Rightarrow>
          if status_code r = 429 \<and> 0 < retries then
            (case retry_after r of
               Inl e \<Rightarrow> (Inl e, w1)
             | Inr n \<Rightarrow>
                 (case py_sleep env n of
                    Inl e \<Rightarrow> (Inl e, emit (MsgRateLimited n) w1)
                  | Inr u \<Rightarrow>
                      SpotifyClient_request env c meth endpoint params body (retries - 1)
                        ((emit (MsgRateLimited n) w1)\<lparr>slept := slept w1 @ [n]\<rparr>)))
          else if 400 \<le> status_code r \<and> status_code r < 600 then
            report_request_error env (error_text r) w1
          else (case content r of
                  EmptyBody \<Rightarrow> (Inr JNull, w1)
                | BadJson \<Rightarrow> report_request_error env (error_text r) w1
                | JsonBody v \<Rightarrow> (Inr v, w1)))"

text \<open>
  \<^verbatim>\<open>SpotifyClient.unfollow_playlist\<close>. The handler for \<^verbatim>\<open>requests.HTTPError\<close> is never
  entered, because \<^verbatim>\<open>_request\<close> has already caught it: the only way out besides
  \<^verbatim>\<open>return True\<close> is an exception that \<^verbatim>\<open>_request\<close> lets through.
\<close>

definition unfollow_playlist :: "env \<Rightarrow> client \<Rightarrow> string \<Rightarrow> world \<Rightarrow> (exn + bool) \<times> world" where
  "unfollow_playlist env c playlist_id w =
     (case SpotifyClient_request env c ''DELETE'' (''playlists/'' @ playlist_id @ ''/followers'')
             None None 3 w of
        (Inl e, w') \<Rightarrow> (Inl e, w')
      | (Inr v, w') \<Rightarrow> (Inr True, w'))"

text \<open>
  \<^verbatim>\<open>SpotifyClient.get_current_user\<close>. The cache \<^verbatim>\<open>_user_data\<close> starts as \<^verbatim>\<open>None\<close> and is
  tested with \<^verbatim>\<open>is None\<close>; when \<^verbatim>\<open>_request\<close> raises, the assignment does not happen.
\<close>

definition get_current_user :: "env \<Rightarrow> client \<Rightarrow> world \<Rightarrow> (exn + json) \<times> client \<times> world" where
  "get_current_user env c w =
     (if user_data c = JNull then
        (case SpotifyClient_request env c ''GET'' ''me'' None None 3 (emit MsgFetchingProfile w) of
           (Inl e, w') \<Rightarrow> (Inl e, c, w')
         | (Inr v, w') \<Rightarrow> (Inr v, c\<lparr>user_data := v\<rparr>, w'))
      else (Inr (user_data c), c, w))"

text \<open>
  \<^verbatim>\<open>SpotifyClient.get_all_playlists\<close>. The \<^verbatim>\<open>while url:\<close> loop runs as long as the server
  hands out next links, so the model counts iterations down from \<open>fuel\<close> and returns
  \<open>None\<close> when they run out. \<open>url\<close> is whatever \<^verbatim>\<open>data.get("next")\<close> gave: a truthy value
  that is not a string makes \<^verbatim>\<open>endpoint.startswith\<close> raise AttributeError before the
  \<^verbatim>\<open>try\<close> of \<^verbatim>\<open>_request\<close>. The handler for \<^verbatim>\<open>requests.HTTPError\<close> around the loop body is
  never entered.
\<close>

fun get_all_playlists_loop ::
  "nat \<Rightarrow> env \<Rightarrow> client \<Rightarrow> json \<Rightarrow> (string \<times> int) list option \<Rightarrow> json list \<Rightarrow> world
     \<Rightarrow> ((exn + json list) \<times> world) option" where
  "get_all_playlists_loop fuel env c url params all_playlists w =
     (if truthy url then
        (case fuel of
           0 \<Rightarrow> None
         | Suc fuel' \<Rightarrow>
             (case url of
                JStr endpoint \<Rightarrow>
                  (case SpotifyClient_request env c ''GET'' endpoint params None 3 w of
                     (Inl e, w1) \<Rightarrow> Some (Inl e, w1)
                   | (Inr data, w1) \<Rightarrow>
                       if truthy data then
                         (case py_getitem data ''items'' of
                            Inl e \<Rightarrow> Some (Inl e, w1)
                          | Inr items \<Rightarrow>
                              (case py_iter items of
                                 Inl e \<Rightarrow> Some (Inl e, w1)
                               | Inr its \<Rightarrow>
                                   (case py_get data ''next'' JNull of
                                      Inl e \<Rightarrow> Some (Inl e, w1)
                                    | Inr nxt \<Rightarrow>
                                        get_all_playlists_loop fuel' env c nxt None
                                          (all_playlists @ its)
                                          (emit (MsgFound (length (all_playlists @ its))) w1))))
                       else Some (Inr all_playlists, w1))
              | _ \<Rightarrow> Some (Inl AttributeError, w)))
      else Some (Inr all_playlists, w))"

definition get_all_playlists ::
  "nat \<Rightarrow> env \<Rightarrow> client \<Rightarrow> world \<Rightarrow> ((exn + json list) \<times> world) option" where
  "get_all_playlists fuel env c w =
     get_all_playlists_loop fuel env c (JStr ''me/playlists'') (Some [(''limit'', 50)]) []
       (emit MsgFetchingAll w)"

section \<open>The filter engine\<close>

text \<open>
  A list comprehension \<^verbatim>\<open>[p for p in ps if cond(p)]\<close> whose condition may raise: the
  elements are tested from left to right and the first exception ends the comprehension.
\<close>

fun comprehension :: "('a \<Rightarrow> exn + bool) \<Rightarrow> 'a list \<Rightarrow> exn + 'a list" where
  "comprehension cond [] = Inr []"
| "comprehension cond (p # ps) =
     (case cond p of
        Inl e \<Rightarrow> Inl e
      | Inr b \<Rightarrow>
          (case comprehension cond ps of
             Inl e \<Rightarrow> Inl e
           | Inr qs \<Rightarrow> Inr (if b then p # qs else qs)))"

text \<open>
  \<^verbatim>\<open>re.compile(name, re.IGNORECASE)\<close> belongs to the regular-expression library and is a
  parameter \<open>re_compile\<close>. For a pattern it raises \<^verbatim>\<open>re.error\<close> (given by its \<^verbatim>\<open>str()\<close>), or
  raises another exception (OverflowError for a repetition count that is too large,
  RecursionError), or returns a compiled pattern, given by the test
  \<^verbatim>\<open>name_re.search(s)\<close> on strings. Searching anything but a string raises TypeError.
\<close>

datatype compiled = ReError string | CompileRaises exn | Compiled "string \<Rightarrow> bool"

type_synonym regex_library = "string \<Rightarrow> compiled"

definition name_cond :: "(string \<Rightarrow> bool) \<Rightarrow> json \<Rightarrow> exn + bool" where
  "name_cond search p =
     (case py_get p ''name'' (JStr []) of
        Inl e \<Rightarrow> Inl e
      | Inr v \<Rightarrow> (case v of JStr s \<Rightarrow> Inr (search s) | _ \<Rightarrow> Inl TypeError))"

text \<open>\<^verbatim>\<open>p.get('owner', {}).get('id')\<close>\<close>

definition owner_id :: "json \<Rightarrow> exn + json" where
  "owner_id p =
     (case py_get p ''owner'' (JObj []) of
        Inl e \<Rightarrow> Inl e
      | Inr ow \<Rightarrow> py_get ow ''id'' JNull)"

definition owner_is :: "json \<Rightarrow> json \<Rightarrow> exn + bool" where
  "owner_is v p = (case owner_id p of Inl e \<Rightarrow> Inl e | Inr i \<Rightarrow> Inr (py_eq i v))"

definition owner_is_not :: "json \<Rightarrow> json \<Rightarrow> exn + bool" where
  "owner_is_not v p = (case owner_id p of Inl e \<Rightarrow> Inl e | Inr i \<Rightarrow> Inr (\<not> py_eq i v))"

definition collaborative_cond :: "bool \<Rightarrow> json \<Rightarrow> exn + bool" where
  "collaborative_cond is_collaborative p =
     (case py_get p ''collaborative'' JNull of
        Inl e \<Rightarrow> Inl e
      | Inr v \<Rightarrow> Inr (py_eq v (JBool is_collaborative)))"

definition empty_cond :: "json \<Rightarrow> exn + bool" where
  "empty_cond p =
     (case py_get p ''tracks'' (JObj []) of
        Inl e \<Rightarrow> Inl e
      | Inr t \<Rightarrow>
          (case py_get t ''total'' (JInt (- 1)) of
             Inl e \<Rightarrow> Inl e
           | Inr v \<Rightarrow> Inr (py_eq v (JInt 0))))"

definition no_description_cond :: "json \<Rightarrow> exn + bool" where
  "no_description_cond p =
     (case py_get p ''description'' JNull of
        Inl e \<Rightarrow> Inl e
      | Inr v \<Rightarrow> Inr (\<not> truthy v))"

text \<open>\<^verbatim>\<open>str.lower()\<close> on the ASCII letters.\<close>

definition py_lower :: "string \<Rightarrow> string" where
  "py_lower s =
     map (\<lambda>c. if 65 \<le> (of_char c :: nat) \<and> (of_char c :: nat) \<le> 90
               then char_of ((of_char c :: nat) + 32) else c) s"

text \<open>
  A stage of \<^verbatim>\<open>_apply_filters_to_playlists\<close> raises, returns from the function at once,
  or hands its list to the next stage.
\<close>

datatype 'a stage = Raised exn | Returned 'a | Next 'a

text \<open>
  \<^verbatim>\<open>if name:\<close> skips a missing and an empty pattern. Only \<^verbatim>\<open>re.error\<close> is caught; its
  handler prints the text of the error and returns the empty list, unless the print
  itself raises.
\<close>

definition name_stage ::
  "env \<Rightarrow> regex_library \<Rightarrow> string option \<Rightarrow> json list \<Rightarrow> world \<Rightarrow> json list stage \<times> world" where
  "name_stage env re_compile name ps w =
     (case name of
        None \<Rightarrow> (Next ps, w)
      | Some pat \<Rightarrow>
          if pat = [] then (Next ps, w)
          else (case re_compile pat of
                  ReError e \<Rightarrow>
                    (case console_print env (invalid_regex_markup e) (MsgInvalidRegex e) w of
                       Inl x \<Rightarrow> (Raised x, w)
                     | Inr w' \<Rightarrow> (Returned [], w'))
                | CompileRaises x \<Rightarrow> (Raised x, w)
                | Compiled search \<Rightarrow>
                    (case comprehension (name_cond search) ps of
                       Inl x \<Rightarrow> (Raised x, w)
                     | Inr qs \<Rightarrow> (Next qs, w))))"

definition owner_cond :: "string \<Rightarrow> json \<Rightarrow> json \<Rightarrow> exn + bool" where
  "owner_cond owner current_user_id =
     (if py_lower owner = ''me'' then owner_is current_user_id
      else if py_lower owner = ''not-me'' then owner_is_not current_user_id
      else owner_is (JStr owner))"

definition owner_stage ::
  "env \<Rightarrow> client \<Rightarrow> string option \<Rightarrow> json list \<Rightarrow> world \<Rightarrow> json list stage \<times> client \<times> world" where
  "owner_stage env c owner ps w =
     (case owner of
        None \<Rightarrow> (Next ps, c, w)
      | Some ow \<Rightarrow>
          if ow = [] then (Next ps, c, w)
          else (case get_current_user env c w of
                  (Inl e, c', w') \<Rightarrow> (Raised e, c', w')
                | (Inr current_user, c', w') \<Rightarrow>
                    if truthy current_user then
                      (case py_getitem current_user ''id'' of
                         Inl e \<Rightarrow> (Raised e, c', w')
                       | Inr current_user_id \<Rightarrow>
                           (case comprehension (owner_cond ow current_user_id) ps of
                              Inl e \<Rightarrow> (Raised e, c', w')
                            | Inr qs \<Rightarrow> (Next qs, c', w')))
                    else (Returned [], c', w')))"

definition collaborative_stage :: "bool option \<Rightarrow> json list \<Rightarrow> exn + json list" where
  "collaborative_stage is_collaborative ps =
     (case is_collaborative of
        None \<Rightarrow> Inr ps
      | Some b \<Rightarrow> comprehension (collaborative_cond b) ps)"

definition empty_stage :: "bool \<Rightarrow> json list \<Rightarrow> exn + json list" where
  "empty_stage is_empty ps = (if is_empty then comprehension empty_cond ps else Inr ps)"

definition no_description_stage :: "bool \<Rightarrow> json list \<Rightarrow> exn + json list" where
  "no_description_stage no_description ps =
     (if no_description then comprehension no_description_cond ps else Inr ps)"

definition flag_stages :: "bool option \<Rightarrow> bool \<Rightarrow> bool \<Rightarrow> json list \<Rightarrow> exn + json list" where
  "flag_stages is_collaborative is_empty no_description ps =
     (case collaborative_stage is_collaborative ps of
        Inl e \<Rightarrow> Inl e
      | Inr ps1 \<Rightarrow>
          (case empty_stage is_empty ps1 of
             Inl e \<Rightarrow> Inl e
           | Inr ps2 \<Rightarrow> no_description_stage no_description ps2))"

text \<open>
  \<^verbatim>\<open>_apply_filters_to_playlists\<close>, with the client and the world it may touch. The
  parameter \<^verbatim>\<open>empty\<close> is written \<open>is_empty\<close>.
\<close>

definition apply_filters_to_playlists ::
  "regex_library \<Rightarrow> env \<Rightarrow> json list \<Rightarrow> client \<Rightarrow> string option \<Rightarrow> string option
     \<Rightarrow> bool option \<Rightarrow> bool \<Rightarrow> bool \<Rightarrow> world \<Rightarrow> (exn + json list) \<times> client \<times> world" where
  "apply_filters_to_playlists re_compile env playlists c name owner is_collaborative is_empty
       no_description w =
     (case name_stage env re_compile name playlists w of
        (Raised e, w1) \<Rightarrow> (Inl e, c, w1)
      | (Returned r, w1) \<Rightarrow> (Inr r, c, w1)
      | (Next ps1, w1) \<Rightarrow>
          (case owner_stage env c owner ps1 w1 of
             (Raised e, c', w') \<Rightarrow> (Inl e, c', w')
           | (Returned r, c', w') \<Rightarrow> (Inr r, c', w')
           | (Next ps2, c', w') \<Rightarrow>
               (flag_stages is_collaborative is_empty no_description ps2, c', w')))"

section \<open>The authorization URL\<close>

definition REDIRECT_URI :: string where
  "REDIRECT_URI = ''http://127.0.0.1:8888/callback''"

definition SCOPES :: string where
  "SCOPES = ''user-read-email playlist-modify-public playlist-modify-private playlist-read-private playlist-read-collaborative''"

text \<open>Step 1 of \<^verbatim>\<open>_perform_auth_flow\<close>: the f-string that builds \<^verbatim>\<open>auth_url\<close>.\<close>

definition auth_url :: "string \<Rightarrow> string" where
  "auth_url client_id =
     ''https://accounts.spotify.com/authorize?'' @
     ''client_id='' @ client_id @ ''&'' @
     ''response_type=code&'' @
     ''redirect_uri='' @ REDIRECT_URI @ ''&'' @
     ''scope='' @ SCOPES"

text \<open>
  The URL that \<^verbatim>\<open>_perform_auth_flow\<close> opens in the browser: none when \<^verbatim>\<open>CLIENT_ID\<close> or
  \<^verbatim>\<open>CLIENT_SECRET\<close> (environment variables, possibly unset) is missing or empty.
\<close>

definition perform_auth_flow_url :: "string option \<Rightarrow> string option \<Rightarrow> string option" where
  "perform_auth_flow_url client_id client_secret =
     (case client_id of
        None \<Rightarrow> None
      | Some cid \<Rightarrow>
          (case client_secret of
             None \<Rightarrow> None
           | Some sec \<Rightarrow> if cid = [] \<or> sec = [] then None else Some (auth_url cid)))"

text \<open>\<^verbatim>\<open>s.split(sep)\<close> for a one-character separator.\<close>

fun split_on :: "char \<Rightarrow> string \<Rightarrow> string list" where
  "split_on sep [] = [[]]"
| "split_on sep (c # cs) =
     (if c = sep then [] # split_on sep cs
      else (case split_on sep cs of
              [] \<Rightarrow> [[c]]
            | p # ps \<Rightarrow> (c # p) # ps))"

text \<open>\<^verbatim>\<open>sep.join(parts)\<close>\<close>

fun join :: "string \<Rightarrow> string list \<Rightarrow> string" where
  "join sep [] = []"
| "join sep [p] = p"
| "join sep (p # q # ps) = p @ sep @ join sep (q # ps)"

text \<open>
  How the receiver of a URL reads its query: the text after the first \<^verbatim>\<open>?\<close> is cut at
  every \<^verbatim>\<open>&\<close>, and each piece at its first \<^verbatim>\<open>=\<close>. Nothing is percent-decoded.
\<close>

definition url_query :: "string \<Rightarrow> string" where
  "url_query url = drop 1 (dropWhile (\<lambda>c. c \<noteq> CHR ''?'') url)"

definition key_value :: "string \<Rightarrow> string \<times> string" where
  "key_value p = (takeWhile (\<lambda>c. c \<noteq> CHR ''='') p, drop 1 (dropWhile (\<lambda>c. c \<noteq> CHR ''='') p))"

definition query_params :: "string \<Rightarrow> (string \<times> string) list" where
  "query_params url = map key_value (split_on (CHR ''&'') (url_query url))"

text \<open>The scope names requested: the words of \<^verbatim>\<open>SCOPES\<close>.\<close>

definition scope_names :: "string list" where
  "scope_names = split_on (CHR '' '') SCOPES"

section \<open>The number of seconds a Retry-After header gives\<close>



section \<open>Concrete clients, servers and libraries\<close>

text \<open>
  A fresh client in a world where nothing has happened yet. The stand-in for the markup
  parser of the console accepts a text whose only brackets are those of its opening and
  closing tag, and refuses every other text; the stand-in for the operating system
  sleeps up to 9000000000 seconds.
\<close>

definition w0 :: world where
  "w0 = \<lparr>sent = [], slept = [], console = []\<rparr>"

definition c0 :: client where
  "c0 = \<lparr>access_token = ''token'', user_data = JNull\<rparr>"

definition toy_rich :: "string \<Rightarrow> bool" where
  "toy_rich markup = (length (filter (\<lambda>c. c = CHR ''['') markup) \<le> 2)"

definition toy_os :: "int \<Rightarrow> bool" where
  "toy_os n = (n \<le> 9000000000)"

definition env_with :: "server \<Rightarrow> env" where
  "env_with srv = \<lparr>http = srv, rich_accepts = toy_rich, os_sleeps = toy_os\<rparr>"

text \<open>Scripted servers. An error response carries the text of its \<^verbatim>\<open>HTTPError\<close>.\<close>

definition not_found :: "string \<Rightarrow> response" where
  "not_found url = \<lparr>status_code = 404, retry_after_header = None,
      content = JsonBody (JObj [(''error'', JObj [(''status'', JInt 404), (''message'', JStr ''Not found.'')])]),
      error_text = ''404 Client Error: Not Found for url: '' @ url\<rparr>"

definition server_404 :: server where
  "server_404 hist = Responds (not_found (rq_url (last hist)))"

definition user_profile :: json where
  "user_profile = JObj [(''id'', JStr ''alice''), (''display_name'', JStr ''Alice'')]"

definition ok_response :: "json \<Rightarrow> response" where
  "ok_response v = \<lparr>status_code = 200, retry_after_header = None, content = JsonBody v,
      error_text = []\<rparr>"

definition rate_limited :: "string option \<Rightarrow> string \<Rightarrow> response" where
  "rate_limited h url = \<lparr>status_code = 429, retry_after_header = h, content = EmptyBody,
      error_text = ''429 Client Error: Too Many Requests for url: '' @ url\<rparr>"

definition server_429_then_200 :: "string option \<Rightarrow> server" where
  "server_429_then_200 h hist =
     (if length hist = 1 then Responds (rate_limited h (rq_url (last hist)))
      else Responds (ok_response user_profile))"

definition internal_error :: "string \<Rightarrow> response" where
  "internal_error url = \<lparr>status_code = 500, retry_after_header = None, content = EmptyBody,
      error_text = ''500 Server Error: Internal Server Error for url: '' @ url\<rparr>"

definition server_500_then_200 :: server where
  "server_500_then_200 hist =
     (if length hist = 1 then Responds (internal_error (rq_url (last hist)))
      else Responds (ok_response user_profile))"


text \<open>A server whose every answer is one and the same 429 response, with an HTTP date.\<close>

definition server_429_date :: server where
  "server_429_date hist =
     Responds (rate_limited (Some ''Wed, 21 Oct 2015 07:28:00 GMT'') ''https://api.spotify.com/v1/me'')"

text \<open>
  A stand-in for the regular-expression library. It refuses the patterns \<^verbatim>\<open>(\<close> and
  \<^verbatim>\<open>(?P<[/x]>a)\<close> with the texts of the real library, raises OverflowError on
  \<^verbatim>\<open>a{4294967296}\<close>, and searches any other pattern as a literal, ignoring case.
\<close>

definition contains :: "string \<Rightarrow> string \<Rightarrow> bool" where
  "contains s p = list_ex (\<lambda>i. startswith (drop i s) p) [0..<Suc (length s)]"

definition toy_regex :: regex_library where
  "toy_regex pat =
     (if pat = ''('' then ReError ''missing ), unterminated subpattern at position 0''
      else if pat = ''(?P<[/x]>a)''
        then ReError (''bad character in group name '' @ [CHR 0x27] @ ''[/x]'' @ [CHR 0x27]
                        @ '' at position 4'')
      else if pat = ''a{4294967296}'' then CompileRaises OverflowError
      else Compiled (\<lambda>s. contains (py_lower s) (py_lower pat)))"

definition playlist :: "string \<Rightarrow> string \<Rightarrow> string \<Rightarrow> int \<Rightarrow> json" where
  "playlist pid name owner n =
     JObj [(''id'', JStr pid), (''name'', JStr name),
           (''owner'', JObj [(''id'', JStr owner), (''display_name'', JStr owner)]),
           (''collaborative'', JBool False), (''public'', JBool True),
           (''description'', JStr ''''), (''tracks'', JObj [(''total'', JInt n)])]"

definition some_playlists :: "json list" where
  "some_playlists =
     [playlist ''p1'' ''Road trip'' ''alice'' 12,
      playlist ''p2'' ''Focus'' ''bob'' 0,
      playlist ''p3'' ''Old mix'' ''alice'' 0]"

definition c_alice :: client where
  "c_alice = \<lparr>access_token = ''token'', user_data = user_profile\<rparr>"








declare SpotifyClient_request.simps [simp del]
declare get_all_playlists_loop.simps [simp del]

section \<open>The request primitive\<close>


lemma request_bad_header:
  assumes "http env (sent w @ [mk_request c meth endpoint params body]) = Responds r"
    and "status_code r = 429" and "retry_after_header r = Some h"
    and "py_int_str h = Inl ValueError"
  shows "fst (SpotifyClient_request env c meth endpoint params body (Suc retries) w) = Inl ValueError"
  using assms
  by (subst SpotifyClient_request.simps) (simp add: Let_def retry_after_def)

lemma request_sent:
  "\<exists>k. sent (snd (SpotifyClient_request env c m e p b r w)) =
        sent w @ mk_request c m e p b # replicate k (mk_request c m e p b)"
proof (induction r arbitrary: w)
  case 0
  show ?case
    by (subst SpotifyClient_request.simps)
       (auto simp: Let_def emit_def report_request_error_def console_print_def
          split: outcome.splits body.splits sum.splits)
next
  case (Suc r)
  have rec: "\<exists>k. sent (snd (SpotifyClient_request env c m e p b r w')) =
               sent w @ mk_request c m e p b # replicate k (mk_request c m e p b)"
    if "sent w' = sent w @ [mk_request c m e p b]" for w'
  proof -
    from Suc [of w'] obtain k where
      "sent (snd (SpotifyClient_request env c m e p b r w')) =
         sent w' @ mk_request c m e p b # replicate k (mk_request c m e p b)"
      by blast
    with that have "sent (snd (SpotifyClient_request env c m e p b r w')) =
        sent w @ mk_request c m e p b # replicate (Suc k) (mk_request c m e p b)"
      by simp
    then show ?thesis by blast
  qed
  show ?case
    by (subst SpotifyClient_request.simps)
       (auto simp: Let_def emit_def report_request_error_def console_print_def
          split: outcome.splits body.splits sum.splits intro!: rec)
qed











text \<open>
  Claim C10. A 429 response whose Retry-After header is not an integer string: the
  \<^verbatim>\<open>int\<close> conversion raises ValueError, which is no \<^verbatim>\<open>RequestException\<close>, so it leaves the
  request primitive and every client method that called it instead of becoming an absent
  result.
\<close>

theorem retry_after_value_error_escapes:
  assumes "\<And>q. http env (sent w @ [q]) = Responds r"
    and "status_code r = 429" and "retry_after_header r = Some h"
    and "py_int_str h = Inl ValueError"
  shows "fst (SpotifyClient_request env c meth endpoint params body (Suc retries) w) = Inl ValueError
       \<and> fst (unfollow_playlist env c playlist_id w) = Inl ValueError
       \<and> fst (get_current_user env (c\<lparr>user_data := JNull\<rparr>) w) = Inl ValueError
       \<and> map_option fst (get_all_playlists (Suc fuel) env c w) = Some (Inl ValueError)"
proof -
  have a: "fst (SpotifyClient_request env c' m e p b 3 w') = Inl ValueError"
    if "sent w' = sent w" for c' m e p b w'
    using assms(1) [of "mk_request c' m e p b"] assms(2-4) that
    by (simp add: numeral_3_eq_3 request_bad_header)
  have 1: "fst (SpotifyClient_request env c meth endpoint params body (Suc retries) w) = Inl ValueError"
    using assms by (simp add: request_bad_header)
  have 2: "fst (unfollow_playlist env c playlist_id w) = Inl ValueError"
    using a [of w c "''DELETE''" "''playlists/'' @ playlist_id @ ''/followers''" None None]
    by (auto simp: unfollow_playlist_def split: prod.splits sum.splits)
  have 3: "fst (get_current_user env (c\<lparr>user_data := JNull\<rparr>) w) = Inl ValueError"
    using a [of "emit MsgFetchingProfile w" "c\<lparr>user_data := JNull\<rparr>" "''GET''" "''me''" None None]
    by (auto simp: get_current_user_def emit_def split: prod.splits sum.splits)
  have 4: "map_option fst (get_all_playlists (Suc fuel) env c w) = Some (Inl ValueError)"
    using a [of "emit MsgFetchingAll w" c "''GET''" "''me/playlists''" "Some [(''limit'', 50)]" None]
    by (auto simp: get_all_playlists_def get_all_playlists_loop.simps [of "Suc fuel"] emit_def
        split: prod.splits sum.splits)
  from 1 2 3 4 show ?thesis by simp
qed

theorem retry_after_value_error_escapes_witness:
  "fst (SpotifyClient_request (env_with server_429_date) c0 ''GET'' ''me'' None None 3 w0) = Inl ValueError
   \<and> fst (unfollow_playlist (env_with server_429_date) c0 ''37i9dQZF1DXcBWIGoYBM5M'' w0) = Inl ValueError
   \<and> fst (get_current_user (env_with server_429_date) c0 w0) = Inl ValueError
   \<and> map_option fst (get_all_playlists 1 (env_with server_429_date) c0 w0) = Some (Inl ValueError)"
proof -
  have h: "py_int_str ''Wed, 21 Oct 2015 07:28:00 GMT'' = Inl ValueError"
    by (simp add: py_int_str_def py_strip_def py_space_def is_digit_def)
  have s: "\<And>q. http (env_with server_429_date) (sent w0 @ [q]) =
             Responds (rate_limited (Some ''Wed, 21 Oct 2015 07:28:00 GMT'') ''https://api.spotify.com/v1/me'')"
    by (simp add: server_429_date_def env_with_def)
  from retry_after_value_error_escapes [of "env_with server_429_date" w0, OF s _ _ h,
      of c0 "''GET''" "''me''" None None 2 "''37i9dQZF1DXcBWIGoYBM5M''" 0]
  show ?thesis
    by (simp add: rate_limited_def c0_def numeral_3_eq_3)
qed

section \<open>Unfollowing\<close>

lemma unfollow_never_False: "fst (unfollow_playlist env c pid w) \<noteq> Inr False"
  by (simp add: unfollow_playlist_def split: prod.splits sum.splits)

text \<open>
  Claim C1, at a server that answers 404 to the DELETE request: \<^verbatim>\<open>unfollow_playlist\<close>
  returns \<^verbatim>\<open>True\<close>, because \<^verbatim>\<open>_request\<close> has already turned the \<^verbatim>\<open>HTTPError\<close> into
  \<^verbatim>\<open>None\<close> and the handler that returns \<^verbatim>\<open>False\<close> is never reached.
\<close>

theorem unfollow_playlist_404_returns_True:
  "fst (unfollow_playlist (env_with server_404) c0 ''37i9dQZF1DXcBWIGoYBM5M'' w0) = Inr True"
  by (simp add: unfollow_playlist_def SpotifyClient_request.simps server_404_def not_found_def
      env_with_def report_request_error_def console_print_def request_error_markup_def
      toy_rich_def mk_request_def request_url_def startswith_def API_BASE_URL_def
      Let_def split: prod.splits)

section \<open>The current user\<close>

lemma get_current_user_cached:
  "user_data c \<noteq> JNull \<Longrightarrow> get_current_user env c w = (Inr (user_data c), c, w)"
  by (simp add: get_current_user_def)

lemma get_current_user_fetch:
  assumes "user_data c = JNull"
  shows "\<exists>k. sent (snd (snd (get_current_user env c w))) =
           sent w @ mk_request c ''GET'' ''me'' None None # replicate k (mk_request c ''GET'' ''me'' None None)"
proof -
  obtain k where "sent (snd (SpotifyClient_request env c ''GET'' ''me'' None None 3 (emit MsgFetchingProfile w))) =
      sent (emit MsgFetchingProfile w) @ mk_request c ''GET'' ''me'' None None # replicate k (mk_request c ''GET'' ''me'' None None)"
    using request_sent by blast
  then show ?thesis
    using assms
    by (cases "SpotifyClient_request env c ''GET'' ''me'' None None 3 (emit MsgFetchingProfile w)")
       (auto simp: get_current_user_def emit_def split: sum.splits)
qed

lemma get_current_user_result:
  assumes "user_data c = JNull" and "get_current_user env c w = (Inr v, c', w')"
  shows "c' = c\<lparr>user_data := v\<rparr>"
  using assms by (auto simp: get_current_user_def split: prod.splits sum.splits)

lemma rich_500_me:
  "toy_rich (request_error_markup
     (''500 Server Error: Internal Server Error for url: '' @ ''https://api.spotify.com/v1/me''))"
  by (simp add: toy_rich_def request_error_markup_def)

lemma get_current_user_first_call_500: "get_current_user (env_with server_500_then_200) c0 w0 =
    (Inr JNull, c0, \<lparr>sent = [mk_request c0 ''GET'' ''me'' None None], slept = [],
       console = [MsgFetchingProfile,
         MsgRequestError ''500 Server Error: Internal Server Error for url: https://api.spotify.com/v1/me'']\<rparr>)"
  using rich_500_me
  by (simp add: get_current_user_def SpotifyClient_request.simps server_500_then_200_def
      internal_error_def env_with_def report_request_error_def console_print_def
      mk_request_def request_url_def startswith_def API_BASE_URL_def
      Let_def emit_def c0_def w0_def)

text \<open>
  Claim C2 as stated fails: the first lookup is answered with 500 and yields \<^verbatim>\<open>None\<close>;
  the second call on the same client sends a second request and returns the profile.
\<close>

theorem get_current_user_failure_not_cached:
  "fst (get_current_user (env_with server_500_then_200) c0 w0) = Inr JNull
   \<and> fst (get_current_user (env_with server_500_then_200)
           (fst (snd (get_current_user (env_with server_500_then_200) c0 w0)))
           (snd (snd (get_current_user (env_with server_500_then_200) c0 w0)))) = Inr user_profile
   \<and> length (sent (snd (snd (get_current_user (env_with server_500_then_200)
           (fst (snd (get_current_user (env_with server_500_then_200) c0 w0)))
           (snd (snd (get_current_user (env_with server_500_then_200) c0 w0))))))) = 2"
  by (simp add: get_current_user_first_call_500)
     (simp add: get_current_user_def SpotifyClient_request.simps server_500_then_200_def
      Let_def emit_def c0_def w0_def ok_response_def env_with_def)

text \<open>
  Claim C2, amended. On a client whose cache is empty, \<^verbatim>\<open>get_current_user\<close> sends a GET
  to the \<^verbatim>\<open>me\<close> endpoint (and nothing but repetitions of it). When the call returns a
  value other than \<^verbatim>\<open>None\<close>, every later call on that client returns the same value,
  leaves the client as it is and sends nothing, whatever the server would answer. When
  the call returns \<^verbatim>\<open>None\<close> (a failed lookup or an empty body), nothing is cached: the
  next call sends the GET again.
\<close>

theorem get_current_user_memoized:
  assumes "user_data c = JNull" and "get_current_user env c w = (res, c', w')"
  shows "(\<exists>k. sent w' = sent w @ mk_request c ''GET'' ''me'' None None
                          # replicate k (mk_request c ''GET'' ''me'' None None))
       \<and> (\<forall>v. res = Inr v \<and> v \<noteq> JNull \<longrightarrow>
            (\<forall>env2 w2. get_current_user env2 c' w2 = (Inr v, c', w2)))
       \<and> (res = Inr JNull \<longrightarrow>
            (\<forall>env2 w2. \<exists>k. sent (snd (snd (get_current_user env2 c' w2))) =
               sent w2 @ mk_request c ''GET'' ''me'' None None
                 # replicate k (mk_request c ''GET'' ''me'' None None)))"
proof (intro conjI allI impI)
  show "\<exists>k. sent w' = sent w @ mk_request c ''GET'' ''me'' None None
                          # replicate k (mk_request c ''GET'' ''me'' None None)"
    using get_current_user_fetch [OF assms(1), of env w] assms(2) by simp
next
  fix v env2 w2
  assume "res = Inr v \<and> v \<noteq> JNull"
  with assms get_current_user_result [of c env w v c' w'] have "user_data c' = v" "v \<noteq> JNull"
    by auto
  then show "get_current_user env2 c' w2 = (Inr v, c', w2)"
    using get_current_user_cached [of c' env2 w2] by simp
next
  fix env2 w2
  assume "res = Inr JNull"
  with assms get_current_user_result [of c env w JNull c' w'] have "c' = c"
    by auto
  with get_current_user_fetch [OF assms(1), of env2 w2]
  show "\<exists>k. sent (snd (snd (get_current_user env2 c' w2))) =
               sent w2 @ mk_request c ''GET'' ''me'' None None
                 # replicate k (mk_request c ''GET'' ''me'' None None)"
    by simp
qed

theorem get_current_user_memoized_witness:
  "(\<exists>k. sent (snd (snd (get_current_user (env_with (server_429_then_200 (Some ''30''))) c0 w0))) =
         sent w0 @ mk_request c0 ''GET'' ''me'' None None
           # replicate k (mk_request c0 ''GET'' ''me'' None None))
   \<and> get_current_user (env_with server_404)
       (fst (snd (get_current_user (env_with (server_429_then_200 (Some ''30''))) c0 w0))) w0 =
       (Inr user_profile, fst (snd (get_current_user (env_with (server_429_then_200 (Some ''30''))) c0 w0)), w0)"
proof -
  let ?env = "env_with (server_429_then_200 (Some ''30''))"
  have u: "user_data c0 = JNull" by (simp add: c0_def)
  have r: "fst (get_current_user ?env c0 w0) = Inr user_profile"
    by (simp add: get_current_user_def SpotifyClient_request.simps server_429_then_200_def
      Let_def emit_def c0_def w0_def ok_response_def rate_limited_def retry_after_def
      py_int_str_def py_strip_def py_space_def is_digit_def digit_val_def py_sleep_def
      env_with_def toy_os_def)
  have n: "user_profile \<noteq> JNull" by (simp add: user_profile_def)
  have g: "get_current_user ?env c0 w0 =
      (fst (get_current_user ?env c0 w0),
       fst (snd (get_current_user ?env c0 w0)),
       snd (snd (get_current_user ?env c0 w0)))"
    by simp
  from get_current_user_memoized [OF u g] r n
  show ?thesis by simp
qed

section \<open>The filter engine: no criterion, a pattern that does not compile\<close>

text \<open>
  Claim C5. With every criterion unset (no name, no owner, no collaborative flag, the
  \<^verbatim>\<open>empty\<close> and \<^verbatim>\<open>no_description\<close> flags off) the filter returns the input list, and
  touches neither the client nor the world.
\<close>

theorem filters_unset_identity:
  "apply_filters_to_playlists re_compile env playlists c None None None False False w =
     (Inr playlists, c, w)"
  by (simp add: apply_filters_to_playlists_def name_stage_def owner_stage_def flag_stages_def
      collaborative_stage_def empty_stage_def no_description_stage_def)






section \<open>The filter engine: comprehensions and the flag stages\<close>

lemma comprehension_Inr:
  "comprehension cond ps = Inr qs \<Longrightarrow>
     qs = filter (\<lambda>p. cond p = Inr True) ps \<and> (\<forall>p\<in>set ps. \<exists>b. cond p = Inr b)"
  by (induction ps arbitrary: qs) (auto split: sum.splits if_splits)

lemma comprehension_total:
  "(\<forall>p\<in>set ps. \<exists>b. cond p = Inr b) \<Longrightarrow>
     comprehension cond ps = Inr (filter (\<lambda>p. cond p = Inr True) ps)"
  by (induction ps) (auto split: sum.splits)

lemma comprehension_split:
  assumes "comprehension cond (filter Q ps) = Inr a"
    and "comprehension cond (filter (\<lambda>p. \<not> Q p) ps) = Inr b"
  shows "\<exists>r. comprehension cond ps = Inr r \<and> a = filter Q r \<and> b = filter (\<lambda>p. \<not> Q p) r"
proof -
  from comprehension_Inr [OF assms(1)] comprehension_Inr [OF assms(2)]
  have a: "a = filter (\<lambda>p. cond p = Inr True) (filter Q ps)"
    and b: "b = filter (\<lambda>p. cond p = Inr True) (filter (\<lambda>p. \<not> Q p) ps)"
    and ok: "\<forall>p\<in>set ps. \<exists>b. cond p = Inr b"
    by auto
  from comprehension_total [OF ok] a b show ?thesis
    by (auto intro: filter_cong)
qed

lemma identity_split:
  assumes "Inr (filter Q ps) = (Inr a :: exn + 'a list)"
    and "Inr (filter (\<lambda>p. \<not> Q p) ps) = (Inr b :: exn + 'a list)"
  shows "\<exists>r. (Inr ps :: exn + 'a list) = Inr r \<and> a = filter Q r \<and> b = filter (\<lambda>p. \<not> Q p) r"
  using assms by auto

lemma collaborative_stage_split:
  assumes "collaborative_stage ic (filter Q ps) = Inr a"
    and "collaborative_stage ic (filter (\<lambda>p. \<not> Q p) ps) = Inr b"
  shows "\<exists>r. collaborative_stage ic ps = Inr r \<and> a = filter Q r \<and> b = filter (\<lambda>p. \<not> Q p) r"
  using assms
  by (cases ic) (auto simp: collaborative_stage_def dest: comprehension_split)

lemma empty_stage_split:
  assumes "empty_stage e (filter Q ps) = Inr a"
    and "empty_stage e (filter (\<lambda>p. \<not> Q p) ps) = Inr b"
  shows "\<exists>r. empty_stage e ps = Inr r \<and> a = filter Q r \<and> b = filter (\<lambda>p. \<not> Q p) r"
  using assms
  by (cases e) (auto simp: empty_stage_def dest: comprehension_split)

lemma no_description_stage_split:
  assumes "no_description_stage e (filter Q ps) = Inr a"
    and "no_description_stage e (filter (\<lambda>p. \<not> Q p) ps) = Inr b"
  shows "\<exists>r. no_description_stage e ps = Inr r \<and> a = filter Q r \<and> b = filter (\<lambda>p. \<not> Q p) r"
  using assms
  by (cases e) (auto simp: no_description_stage_def dest: comprehension_split)

lemma flag_stages_split:
  assumes "flag_stages ic e nd (filter Q ps) = Inr a"
    and "flag_stages ic e nd (filter (\<lambda>p. \<not> Q p) ps) = Inr b"
  shows "\<exists>r. flag_stages ic e nd ps = Inr r \<and> a = filter Q r \<and> b = filter (\<lambda>p. \<not> Q p) r"
proof -
  from assms(1) obtain a1 a2 where
    a1: "collaborative_stage ic (filter Q ps) = Inr a1" and
    a2: "empty_stage e a1 = Inr a2" and
    a3: "no_description_stage nd a2 = Inr a"
    by (auto simp: flag_stages_def split: sum.splits)
  from assms(2) obtain b1 b2 where
    b1: "collaborative_stage ic (filter (\<lambda>p. \<not> Q p) ps) = Inr b1" and
    b2: "empty_stage e b1 = Inr b2" and
    b3: "no_description_stage nd b2 = Inr b"
    by (auto simp: flag_stages_def split: sum.splits)
  from collaborative_stage_split [OF a1 b1] obtain r1 where
    r1: "collaborative_stage ic ps = Inr r1" "a1 = filter Q r1" "b1 = filter (\<lambda>p. \<not> Q p) r1"
    by blast
  from empty_stage_split [of e Q r1 a2 b2] a2 b2 r1 obtain r2 where
    r2: "empty_stage e r1 = Inr r2" "a2 = filter Q r2" "b2 = filter (\<lambda>p. \<not> Q p) r2"
    by blast
  from no_description_stage_split [of nd Q r2 a b] a3 b3 r2 obtain r where
    r: "no_description_stage nd r2 = Inr r" "a = filter Q r" "b = filter (\<lambda>p. \<not> Q p) r"
    by blast
  from r1 r2 r show ?thesis
    by (simp add: flag_stages_def)
qed

section \<open>The filter engine: the owner criterion\<close>

lemma name_cond_string:
  assumes "py_get p ''name'' (JStr []) = Inr (JStr s)"
  shows "name_cond search p = Inr (search s)"
  using assms by (simp add: name_cond_def)

lemma name_stage_Next:
  "name_stage env re_compile name playlists w = (Next ps, w') \<Longrightarrow> w' = w"
  by (auto simp: name_stage_def split: option.splits if_splits sum.splits compiled.splits)

lemma name_stage_Returned:
  "name_stage env re_compile name playlists w = (Returned r, w') \<Longrightarrow> r = []"
  by (auto simp: name_stage_def split: option.splits if_splits sum.splits compiled.splits)






lemma owner_is_not_True:
  assumes "owner_is uid p = Inr b"
  shows "(owner_is_not uid p = Inr True) = (\<not> (owner_is uid p = Inr True))"
  using assms by (auto simp: owner_is_def owner_is_not_def split: sum.splits)

lemma owner_stage_result:
  assumes "owner \<noteq> []"
    and "get_current_user env c w = (Inr u, c', w')"
    and "truthy u" and "py_getitem u ''id'' = Inr uid"
  shows "owner_stage env c (Some owner) ps w =
         (case comprehension (owner_cond owner uid) ps of
            Inl e \<Rightarrow> (Raised e, c', w')
          | Inr qs \<Rightarrow> (Next qs, c', w'))"
  using assms by (simp add: owner_stage_def)

lemma apply_filters_owner:
  assumes "owner \<noteq> []"
    and "get_current_user env c w = (Inr u, c', w')"
    and "truthy u" and "py_getitem u ''id'' = Inr uid"
    and "name_stage env re_compile name playlists w = (Next ps1, w)"
    and "fst (apply_filters_to_playlists re_compile env playlists c name (Some owner)
               ic e nd w) = Inr res"
  shows "\<exists>qs. comprehension (owner_cond owner uid) ps1 = Inr qs \<and> flag_stages ic e nd qs = Inr res"
  using assms
  by (auto simp: apply_filters_to_playlists_def owner_stage_result split: sum.splits)

lemmas filter_eval =
  apply_filters_to_playlists_def name_stage_def owner_stage_def owner_cond_def flag_stages_def
  collaborative_stage_def empty_stage_def no_description_stage_def
  owner_is_def owner_is_not_def owner_id_def empty_cond_def collaborative_cond_def
  no_description_cond_def name_cond_def py_lower_def
  get_current_user_def some_playlists_def playlist_def c_alice_def user_profile_def

text \<open>
  Claim C6. The current user is known (the lookup gives a profile with an \<^verbatim>\<open>id\<close>), the
  other criteria are fixed, and the filter returns a list both with owner \<^verbatim>\<open>me\<close> and with
  owner \<^verbatim>\<open>not-me\<close> (in any letter case). Then the filter with no owner criterion returns a
  list too, the \<^verbatim>\<open>me\<close> result is exactly its records owned by the current user and the
  \<^verbatim>\<open>not-me\<close> result exactly the others, in order: the two results share no record and
  their union, also by playlist id, is the result without an owner criterion.
\<close>

theorem owner_me_not_me_partition:
  assumes "py_lower owner_me = ''me''" and "py_lower owner_not_me = ''not-me''"
    and "get_current_user env c w = (Inr current_user, c', w')"
    and "truthy current_user" and "py_getitem current_user ''id'' = Inr uid"
    and "fst (apply_filters_to_playlists re_compile env playlists c name (Some owner_me)
               is_collaborative is_empty no_description w) = Inr mine"
    and "fst (apply_filters_to_playlists re_compile env playlists c name (Some owner_not_me)
               is_collaborative is_empty no_description w) = Inr others"
  shows "\<exists>unfiltered.
           fst (apply_filters_to_playlists re_compile env playlists c name None
                 is_collaborative is_empty no_description w) = Inr unfiltered
         \<and> mine = filter (\<lambda>p. owner_is uid p = Inr True) unfiltered
         \<and> others = filter (\<lambda>p. \<not> (owner_is uid p = Inr True)) unfiltered
         \<and> set mine \<inter> set others = {}
         \<and> set mine \<union> set others = set unfiltered
         \<and> (\<lambda>p. py_getitem p ''id'') ` set mine \<union> (\<lambda>p. py_getitem p ''id'') ` set others =
             (\<lambda>p. py_getitem p ''id'') ` set unfiltered"
proof -
  let ?O = "\<lambda>p. owner_is uid p = Inr True"
  have ne: "owner_me \<noteq> []" "owner_not_me \<noteq> []"
    using assms(1,2) by (auto simp: py_lower_def)
  have cm: "owner_cond owner_me uid = owner_is uid"
    using assms(1) by (simp add: owner_cond_def)
  have cn: "owner_cond owner_not_me uid = owner_is_not uid"
    using assms(2) by (simp add: owner_cond_def)
  have part: "\<exists>al. X = Inr al \<and> mine = filter ?O al \<and> others = filter (\<lambda>p. \<not> ?O p) al
       \<Longrightarrow> \<exists>al. X = Inr al \<and> mine = filter ?O al \<and> others = filter (\<lambda>p. \<not> ?O p) al
          \<and> set mine \<inter> set others = {} \<and> set mine \<union> set others = set al
          \<and> (\<lambda>p. py_getitem p ''id'') ` set mine \<union> (\<lambda>p. py_getitem p ''id'') ` set others =
             (\<lambda>p. py_getitem p ''id'') ` set al" for X :: "exn + json list"
    by (elim exE conjE, intro exI conjI, assumption+) auto
  obtain st w1 where ns: "name_stage env re_compile name playlists w = (st, w1)"
    by (cases "name_stage env re_compile name playlists w")
  show ?thesis
  proof (cases st)
    case (Raised e)
    with ns assms(6) show ?thesis
      by (simp add: apply_filters_to_playlists_def)
  next
    case (Returned r)
    with ns assms(6,7) name_stage_Returned [of env re_compile name playlists w r w1] show ?thesis
      by (auto simp: apply_filters_to_playlists_def)
  next
    case (Next ps1)
    with ns name_stage_Next [of env re_compile name playlists w ps1 w1]
    have Next: "name_stage env re_compile name playlists w = (Next ps1, w)" by simp
    from apply_filters_owner [OF ne(1) assms(3-5) Next assms(6)] cm obtain qm where
      qm: "comprehension (owner_is uid) ps1 = Inr qm" "flag_stages is_collaborative is_empty no_description qm = Inr mine"
      by auto
    from apply_filters_owner [OF ne(2) assms(3-5) Next assms(7)] cn obtain qn where
      qn: "comprehension (owner_is_not uid) ps1 = Inr qn" "flag_stages is_collaborative is_empty no_description qn = Inr others"
      by auto
    from comprehension_Inr [OF qm(1)] have
      qm_eq: "qm = filter ?O ps1" and ok: "\<forall>p\<in>set ps1. \<exists>b. owner_is uid p = Inr b"
      by auto
    from comprehension_Inr [OF qn(1)] have "qn = filter (\<lambda>p. owner_is_not uid p = Inr True) ps1"
      by simp
    also have "\<dots> = filter (\<lambda>p. \<not> ?O p) ps1"
      using ok by (intro filter_cong refl) (auto simp: owner_is_not_True)
    finally have qn_eq: "qn = filter (\<lambda>p. \<not> ?O p) ps1" .
    from flag_stages_split [of is_collaborative is_empty no_description ?O ps1 mine others]
      qm(2) qn(2) qm_eq qn_eq
    obtain al where "flag_stages is_collaborative is_empty no_description ps1 = Inr al"
      "mine = filter ?O al" "others = filter (\<lambda>p. \<not> ?O p) al"
      by auto
    with Next have "\<exists>al. fst (apply_filters_to_playlists re_compile env playlists c name None
                 is_collaborative is_empty no_description w) = Inr al \<and> mine = filter ?O al \<and> others = filter (\<lambda>p. \<not> ?O p) al"
      by (simp add: apply_filters_to_playlists_def owner_stage_def)
    then show ?thesis by (rule part)
  qed
qed

theorem owner_me_not_me_partition_witness:
  "\<exists>unfiltered.
     fst (apply_filters_to_playlists toy_regex (env_with server_404) some_playlists c_alice None None
           None True False w0) = Inr unfiltered
     \<and> [playlist ''p3'' ''Old mix'' ''alice'' 0] =
         filter (\<lambda>p. owner_is (JStr ''alice'') p = Inr True) unfiltered
     \<and> [playlist ''p2'' ''Focus'' ''bob'' 0] =
         filter (\<lambda>p. \<not> (owner_is (JStr ''alice'') p = Inr True)) unfiltered
     \<and> set [playlist ''p3'' ''Old mix'' ''alice'' 0] \<inter> set [playlist ''p2'' ''Focus'' ''bob'' 0] = {}
     \<and> set [playlist ''p3'' ''Old mix'' ''alice'' 0] \<union> set [playlist ''p2'' ''Focus'' ''bob'' 0] =
         set unfiltered
     \<and> (\<lambda>p. py_getitem p ''id'') ` set [playlist ''p3'' ''Old mix'' ''alice'' 0]
         \<union> (\<lambda>p. py_getitem p ''id'') ` set [playlist ''p2'' ''Focus'' ''bob'' 0] =
         (\<lambda>p. py_getitem p ''id'') ` set unfiltered"
proof -
  have l1: "py_lower ''me'' = ''me''" and l2: "py_lower ''not-me'' = ''not-me''"
    by (simp_all add: py_lower_def)
  have g: "get_current_user (env_with server_404) c_alice w0 = (Inr user_profile, c_alice, w0)"
    by (simp add: get_current_user_def c_alice_def user_profile_def)
  have t: "truthy user_profile" and i: "py_getitem user_profile ''id'' = Inr (JStr ''alice'')"
    by (simp_all add: user_profile_def)
  have m: "fst (apply_filters_to_playlists toy_regex (env_with server_404) some_playlists c_alice None
             (Some ''me'') None True False w0) = Inr [playlist ''p3'' ''Old mix'' ''alice'' 0]"
    by (simp add: filter_eval)
  have n: "fst (apply_filters_to_playlists toy_regex (env_with server_404) some_playlists c_alice None
             (Some ''not-me'') None True False w0) = Inr [playlist ''p2'' ''Focus'' ''bob'' 0]"
    by (simp add: filter_eval)
  from owner_me_not_me_partition [OF l1 l2 g t i m n] show ?thesis .
qed

section \<open>The authorization URL: the scope parameter\<close>

lemma split_on_append:
  "sep \<notin> set a \<Longrightarrow> split_on sep (a @ sep # rest) = a # split_on sep rest"
  by (induction a) auto

lemma scope_names_eq:
  "scope_names = [''user-read-email'', ''playlist-modify-public'', ''playlist-modify-private'',
                  ''playlist-read-private'', ''playlist-read-collaborative'']"
  by (simp add: scope_names_def SCOPES_def)

lemma query_params_auth_url:
  assumes "CHR ''&'' \<notin> set client_id"
  shows "query_params (auth_url client_id) =
    [(''client_id'', client_id), (''response_type'', ''code''),
     (''redirect_uri'', REDIRECT_URI), (''scope'', SCOPES)]"
proof -
  have q: "url_query (auth_url client_id) =
      (''client_id='' @ client_id) @ CHR ''&'' #
        ''response_type=code&redirect_uri=http://127.0.0.1:8888/callback&scope='' @ SCOPES"
    by (simp add: url_query_def auth_url_def REDIRECT_URI_def)
  have n: "CHR ''&'' \<notin> set (''client_id='' @ client_id)"
    using assms by simp
  have "split_on (CHR ''&'') (url_query (auth_url client_id)) =
      (''client_id='' @ client_id) #
      split_on (CHR ''&'') (''response_type=code&redirect_uri=http://127.0.0.1:8888/callback&scope='' @ SCOPES)"
    unfolding q by (rule split_on_append [OF n])
  then show ?thesis
    by (simp add: query_params_def key_value_def SCOPES_def REDIRECT_URI_def)
qed

text \<open>
  Claim C8 as stated fails: in the URL built for a 32-character client id the scope
  parameter is not the names run together, and it contains spaces.
\<close>

theorem auth_url_scope_has_spaces:
  "map_of (query_params (auth_url ''0123456789abcdef0123456789abcdef'')) ''scope''
     \<noteq> Some (concat scope_names)
   \<and> CHR '' '' \<in> set (the (map_of (query_params (auth_url ''0123456789abcdef0123456789abcdef'')) ''scope''))"
  by (simp add: query_params_auth_url scope_names_eq) (simp add: SCOPES_def)

text \<open>
  Claim C8, amended. With both credentials configured (and a client id free of \<^verbatim>\<open>&\<close>) the
  interactive flow builds an authorization URL whose scope query parameter is the requested
  scope names joined by single spaces, the spaces left as they are.
\<close>

theorem auth_url_scope_space_separated:
  assumes "client_id \<noteq> []" and "client_secret \<noteq> []" and "CHR ''&'' \<notin> set client_id"
  shows "\<exists>url. perform_auth_flow_url (Some client_id) (Some client_secret) = Some url
         \<and> map_of (query_params url) ''scope'' = Some (join '' '' scope_names)"
proof -
  have "join '' '' scope_names = SCOPES"
    by (simp add: scope_names_eq SCOPES_def)
  with assms show ?thesis
    by (simp add: perform_auth_flow_url_def query_params_auth_url)
qed

theorem auth_url_scope_space_separated_witness:
  "\<exists>url. perform_auth_flow_url (Some ''0123456789abcdef0123456789abcdef'') (Some ''secret'') = Some url
         \<and> map_of (query_params url) ''scope'' = Some (join '' '' scope_names)"
  using auth_url_scope_space_separated [of "''0123456789abcdef0123456789abcdef''" "''secret''"]
  by simp

section \<open>Listing all playlists\<close>




text \<open>
  Ways in which a request gives an absent result: the HTTP library raises, or the status
  is an error that is not retried, or the body is not JSON, and the console can print
  the text of the error; or the server keeps answering 429 until the retry budget is
  used up.
\<close>

lemma request_raises:
  assumes "http env (sent w @ [mk_request c meth endpoint params body]) = Raises e"
    and "rich_accepts env (request_error_markup e)"
  shows "SpotifyClient_request env c meth endpoint params body retries w =
         (Inr JNull, emit (MsgRequestError e)
            (w\<lparr>sent := sent w @ [mk_request c meth endpoint params body]\<rparr>))"
  using assms
  by (subst SpotifyClient_request.simps)
     (simp add: Let_def report_request_error_def console_print_def)

















end
